theory Spec2Isabelle
  imports Complex_Main
begin

section \<open>Vectors\<close>

text \<open>
  The rotation code works on one-dimensional numpy arrays of floats. A vector is modelled
  as a list of reals: the arithmetic of the model is exact, where numpy rounds to double
  precision. The element-wise operations of numpy on two arrays of the same shape are the
  \<open>map2\<close> of the operation; numpy refuses arrays of different shapes, so every statement
  about two vectors carries the hypothesis that their lengths agree. Where numpy divides by
  a zero it answers with an infinity or a NaN and a warning, which the reals do not have
  (the quotient is \<open>0\<close> there); the statements on the rotations are about inputs on which no
  such division takes place, or do not depend on its value, and the quotients of
  \<open>update_relative_reference_point\<close> are checked ones.
\<close>

type_synonym Vector = "real list"

definition vadd :: "Vector \<Rightarrow> Vector \<Rightarrow> Vector" where
  "vadd a b = map2 (+) a b"

definition vsub :: "Vector \<Rightarrow> Vector \<Rightarrow> Vector" where
  "vsub a b = map2 (-) a b"

definition smul :: "real \<Rightarrow> Vector \<Rightarrow> Vector" where
  "smul k a = map (\<lambda>x. k * x) a"

definition vdiv :: "Vector \<Rightarrow> real \<Rightarrow> Vector" where
  "vdiv a k = map (\<lambda>x. x / k) a"

text \<open>\<open>np.dot\<close> on two one-dimensional arrays.\<close>

definition dot :: "Vector \<Rightarrow> Vector \<Rightarrow> real" where
  "dot a b = sum_list (map2 (*) a b)"

text \<open>\<open>LA.norm\<close> on a one-dimensional array: the Euclidean norm.\<close>

definition vnorm :: "Vector \<Rightarrow> real" where
  "vnorm a = sqrt (sum_list (map (\<lambda>x. x\<^sup>2) a))"

section \<open>Errors\<close>

text \<open>
  The exceptions of the Python code, each with the message the code gives it; \<open>BdbQuit\<close> is
  the exception with which a session of the debugger ends when it is quit.
\<close>

datatype error =
    ValueError string
  | AttributeError string
  | KeyError
  | IndexError
  | BdbQuit

section \<open>VectorRotationXd\<close>

text \<open>
  The dataclass \<open>VectorRotationXd\<close> has the two fields \<open>base\<close> (an array of shape
  dimension x 2) and \<open>rotation_angle\<close>. The base is kept as the pair of its two columns
  \<open>base[:, 0]\<close> and \<open>base[:, 1]\<close>.
\<close>

record VectorRotationXd =
  base :: "Vector \<times> Vector"
  rotation_angle :: real

text \<open>
  \<open>VectorRotationXd.from_directions\<close>. The two lines that would normalise the inputs are
  commented out in the source, so the inputs are used as they are given. \<open>np.dot\<close> raises
  a ValueError of its own on two arrays of different lengths.
\<close>

definition from_directions :: "Vector \<Rightarrow> Vector \<Rightarrow> error + VectorRotationXd" where
  "from_directions vec_init vec_rot =
     (if length vec_init \<noteq> length vec_rot then Inl (ValueError ''shapes not aligned'')
      else
        let dot_prod = dot vec_init vec_rot in
        if dot_prod = - 1 then Inl (ValueError ''Antiparallel vectors'')
        else
          let vec_perp =
                (if dot_prod < 1
                 then (let p = vsub vec_rot (smul dot_prod vec_init) in vdiv p (vnorm p))
                 else vec_rot)
          in Inr \<lparr>base = (vec_init, vec_perp), rotation_angle = arccos dot_prod\<rparr>)"

text \<open>
  \<open>math.atan2\<close> (and \<open>np.arctan2\<close>), by the quadrant of the point \<open>(x, y)\<close>; at the origin
  it is \<open>0\<close>.
\<close>

definition atan2 :: "real \<Rightarrow> real \<Rightarrow> real" where
  "atan2 y x =
     (if 0 < x then arctan (y / x)
      else if x < 0 then (if 0 \<le> y then arctan (y / x) + pi else arctan (y / x) - pi)
      else if 0 < y then pi / 2
      else if y < 0 then - (pi / 2)
      else 0)"

text \<open>
  \<open>rotate_direction\<close>: the direction is normalised, projected on the two columns of the base,
  turned by \<open>rotation_angle\<close> inside their plane, and the part orthogonal to the base is
  added back.
\<close>

definition rotate_direction :: "Vector \<Rightarrow> Vector \<times> Vector \<Rightarrow> real \<Rightarrow> Vector" where
  "rotate_direction direction0 bs rotation_angle0 =
     (let direction = vdiv direction0 (vnorm direction0);
          dot_prods = (dot (fst bs) direction, dot (snd bs) direction);
          angle = atan2 (snd dot_prods) (fst dot_prods) + rotation_angle0;
          out_direction = vadd (smul (cos angle) (fst bs)) (smul (sin angle) (snd bs));
          out_direction = smul (sqrt ((fst dot_prods)\<^sup>2 + (snd dot_prods)\<^sup>2)) out_direction
      in vadd out_direction
           (vsub direction
              (vadd (smul (fst dot_prods) (fst bs)) (smul (snd dot_prods) (snd bs)))))"

text \<open>
  \<open>rotate_array\<close> does the same on every column of a matrix of directions; the matrix is
  the list of its columns.
\<close>

definition rotate_array :: "Vector list \<Rightarrow> Vector \<times> Vector \<Rightarrow> real \<Rightarrow> Vector list" where
  "rotate_array directions0 bs rotation_angle0 =
     map (\<lambda>column.
            let direction = vdiv column (vnorm column);
                dot_prods = (dot (fst bs) direction, dot (snd bs) direction);
                angle = atan2 (snd dot_prods) (fst dot_prods) + rotation_angle0;
                out_vector = vadd (smul (cos angle) (fst bs)) (smul (sin angle) (snd bs));
                out_vector = smul (sqrt ((fst dot_prods)\<^sup>2 + (snd dot_prods)\<^sup>2)) out_vector
            in vadd out_vector
                 (vsub direction
                    (vadd (smul (fst dot_prods) (fst bs)) (smul (snd dot_prods) (snd bs)))))
         directions0"

text \<open>
  The methods \<open>rotate\<close> (here \<open>rotate_xd\<close>, the name \<open>rotate\<close> being the one of the lists) and
  \<open>inverse_rotate\<close> of \<open>VectorRotationXd\<close>.
\<close>

definition rotate_xd :: "VectorRotationXd \<Rightarrow> Vector \<Rightarrow> real \<Rightarrow> Vector" where
  "rotate_xd r direction0 rot_factor =
     rotate_direction direction0 (base r) (rot_factor * rotation_angle r)"

definition inverse_rotate :: "VectorRotationXd \<Rightarrow> Vector \<Rightarrow> Vector" where
  "inverse_rotate r direction0 =
     rotate_direction direction0 (base r) ((- 1) * rotation_angle r)"

section \<open>VectorRotationSequence\<close>

text \<open>
  Running a computation that may raise: the first error stops it.
\<close>

definition ebind :: "error + 'a \<Rightarrow> ('a \<Rightarrow> error + 'b) \<Rightarrow> error + 'b" where
  "ebind m f = (case m of Inl e \<Rightarrow> Inl e | Inr x \<Rightarrow> f x)"

text \<open>
  The class keeps \<open>vectors_array\<close> (the normalised input columns), \<open>basis_array\<close> (one base
  per rotation, of shape dimension x n_rotations x 2) and \<open>rotation_angles\<close>.
\<close>

record VectorRotationSequence =
  vectors_array :: "Vector list"
  basis_array :: "(Vector \<times> Vector) list"
  rotation_angles :: "real list"

text \<open>
  \<open>VectorRotationSequence.__init__\<close>: the columns are normalised, \<open>dot_prod\<close> holds the
  dot products of the consecutive columns, and the constructor raises when one of them is
  \<open>-1\<close>.
\<close>

definition VectorRotationSequence_init :: "Vector list \<Rightarrow> error + VectorRotationSequence" where
  "VectorRotationSequence_init vectors_array0 =
     (let vectors = map (\<lambda>v. vdiv v (vnorm v)) vectors_array0;
          dot_prod = map2 dot (tl vectors) (butlast vectors)
      in if length (filter (\<lambda>d. d = - 1) dot_prod) \<noteq> 0
         then Inl (ValueError ''Antiparallel vectors.'')
         else
           let vec_perp = map2 (\<lambda>(v1, v0) d. vsub v1 (smul d v0))
                            (zip (tl vectors) (butlast vectors)) dot_prod;
               vec_perp = map (\<lambda>p. vdiv p (vnorm p)) vec_perp
           in Inr \<lparr>vectors_array = vectors,
                   basis_array = zip (butlast vectors) vec_perp,
                   rotation_angles = map arccos dot_prod\<rparr>)"

definition n_rotations :: "VectorRotationSequence \<Rightarrow> nat" where
  "n_rotations s = length (basis_array s)"

text \<open>\<open>np.cumsum\<close>.\<close>

fun cumsum_from :: "real \<Rightarrow> real list \<Rightarrow> real list" where
  "cumsum_from acc [] = []"
| "cumsum_from acc (x # xs) = (acc + x) # cumsum_from (acc + x) xs"

definition cumsum :: "real list \<Rightarrow> real list" where
  "cumsum xs = cumsum_from 0 xs"

text \<open>\<open>math.isclose\<close> with its default tolerances (relative \<open>1e-9\<close>, absolute \<open>0\<close>).\<close>

definition isclose :: "real \<Rightarrow> real \<Rightarrow> bool" where
  "isclose a b \<longleftrightarrow> \<bar>a - b\<bar> \<le> max (1 / 10 ^ 9 * max \<bar>a\<bar> \<bar>b\<bar>) 0"

text \<open>Reading an array at an index that is not negative: out of range raises IndexError.\<close>

definition item :: "'a list \<Rightarrow> nat \<Rightarrow> error + 'a" where
  "item xs i = (if i < length xs then Inr (xs ! i) else Inl IndexError)"

text \<open>
  The product \<open>*\<close> of two one-dimensional arrays: element by element on equal lengths, an
  array of length one is broadcast, and other shapes raise.
\<close>

definition np_mul :: "real list \<Rightarrow> real list \<Rightarrow> error + real list" where
  "np_mul a b =
     (if length a = length b then Inr (map2 (*) a b)
      else if length a = 1 then Inr (map (\<lambda>y. hd a * y) b)
      else if length b = 1 then Inr (map (\<lambda>x. x * hd b) a)
      else Inl (ValueError ''operands could not be broadcast together''))"

text \<open>
  \<open>reshape(dimension, -1)\<close> on a slice of bases lists the columns base by base, and
  \<open>reshape(dimension, -1, 2)\<close> groups them in pairs again.
\<close>

fun reshape_columns :: "(Vector \<times> Vector) list \<Rightarrow> Vector list" where
  "reshape_columns [] = []"
| "reshape_columns ((b0, b1) # bs) = b0 # b1 # reshape_columns bs"

fun reshape_bases :: "Vector list \<Rightarrow> (Vector \<times> Vector) list" where
  "reshape_bases (b0 # b1 # cs) = (b0, b1) # reshape_bases cs"
| "reshape_bases cs = []"

text \<open>
  The first loop of \<open>rotate_weighted\<close>, over \<open>reversed(range(n_rotations - 1))\<close>: the bases
  above \<open>ii\<close> are turned in the base \<open>ii\<close> by the part of its angle that is not kept.
\<close>

fun update_bases ::
  "nat list \<Rightarrow> real list \<Rightarrow> real list \<Rightarrow> (Vector \<times> Vector) list \<Rightarrow> error + (Vector \<times> Vector) list"
where
  "update_bases [] angles cumulated_weights temp_base = Inr temp_base"
| "update_bases (ii # iis) angles cumulated_weights temp_base =
     ebind (item temp_base ii) (\<lambda>base_ii.
     ebind (item angles ii) (\<lambda>angle_ii.
     ebind (item cumulated_weights ii) (\<lambda>weight_ii.
       update_bases iis angles cumulated_weights
         (take (ii + 1) temp_base @
          reshape_bases
            (rotate_array (reshape_columns (drop (ii + 1) temp_base)) base_ii
               (angle_ii * (1 - weight_ii)))))))"

text \<open>The second loop, over \<open>range(n_rotations)\<close>: the direction is turned base after base.\<close>

fun rotate_bottom_up ::
  "nat list \<Rightarrow> real list \<Rightarrow> (Vector \<times> Vector) list \<Rightarrow> Vector \<Rightarrow> error + Vector"
where
  "rotate_bottom_up [] temp_angle temp_base direction0 = Inr direction0"
| "rotate_bottom_up (ii # iis) temp_angle temp_base direction0 =
     ebind (item temp_angle ii) (\<lambda>angle_ii.
     ebind (item temp_base ii) (\<lambda>base_ii.
       rotate_bottom_up iis temp_angle temp_base (rotate_direction direction0 base_ii angle_ii)))"

text \<open>
  \<open>rotate_weighted\<close>, called with an array of weights. The result is the pair of the warnings
  emitted and of the value returned or the error raised.
\<close>

definition rotate_weighted ::
  "VectorRotationSequence \<Rightarrow> Vector \<Rightarrow> real list \<Rightarrow> string list \<times> (error + Vector)"
where
  "rotate_weighted s direction0 weights =
     (let cumulated_weights = rev (cumsum (rev weights)) in
      case item cumulated_weights 0 of
        Inl e \<Rightarrow> ([], Inl e)
      | Inr total_weight \<Rightarrow>
          (if \<not> isclose total_weight 1 then [''Weights are summing up to more than 1.''] else [],
           ebind (np_mul (rotation_angles s) cumulated_weights) (\<lambda>temp_angle.
           ebind (update_bases (rev [0..<n_rotations s - 1]) (rotation_angles s)
                    cumulated_weights (basis_array s)) (\<lambda>temp_base.
             rotate_bottom_up [0..<n_rotations s] temp_angle temp_base direction0))))"

text \<open>
  \<open>VectorRotationSequence.rotate\<close>: all the weight is put on the last rotation; on a sequence
  without a rotation \<open>weights[-1]\<close> raises.
\<close>

definition rotate_sequence ::
  "VectorRotationSequence \<Rightarrow> Vector \<Rightarrow> real \<Rightarrow> string list \<times> (error + Vector)"
where
  "rotate_sequence s direction0 rot_factor =
     (if n_rotations s = 0 then ([], Inl IndexError)
      else rotate_weighted s direction0
             ((replicate (n_rotations s) 0)[n_rotations s - 1 := rot_factor]))"

section \<open>VectorRotationTree\<close>

text \<open>
  The tree is a \<open>networkx.DiGraph\<close>. Every node carries the attributes \<open>level\<close>,
  \<open>direction\<close>, \<open>weight\<close> and \<open>orientation\<close>; the graph keeps its nodes, and the successors
  of a node, in the order in which they were added.
\<close>

record node =
  level :: nat
  direction :: Vector
  weight :: real
  orientation :: VectorRotationXd

record VectorRotationTree =
  graph_nodes :: "(int \<times> node) list"
  graph_edges :: "(int \<times> int) list"

text \<open>\<open>DiGraph.add_node\<close>: a new node goes to the end, a known one keeps its place.\<close>

fun put_node :: "int \<Rightarrow> node \<Rightarrow> (int \<times> node) list \<Rightarrow> (int \<times> node) list" where
  "put_node node_id nd [] = [(node_id, nd)]"
| "put_node node_id nd ((k, v) # ns) =
     (if k = node_id then (node_id, nd) # ns else (k, v) # put_node node_id nd ns)"

text \<open>\<open>DiGraph.add_edge\<close>: an edge that is already there is not added again.\<close>

definition put_edge :: "int \<times> int \<Rightarrow> (int \<times> int) list \<Rightarrow> (int \<times> int) list" where
  "put_edge e es = (if e \<in> set es then es else es @ [e])"

definition successors :: "VectorRotationTree \<Rightarrow> int \<Rightarrow> int list" where
  "successors t node_id = map snd (filter (\<lambda>e. fst e = node_id) (graph_edges t))"

definition VectorRotationTree_init :: "int \<Rightarrow> Vector \<Rightarrow> VectorRotationTree" where
  "VectorRotationTree_init root_id root_direction =
     \<lparr>graph_nodes =
        [(root_id,
          \<lparr>level = 0, direction = root_direction, weight = 0,
           orientation = \<lparr>base = (root_direction, root_direction), rotation_angle = 0\<rparr>\<rparr>)],
      graph_edges = []\<rparr>"

text \<open>
  \<open>VectorRotationTree.add_node\<close>. The result is the pair of the warnings emitted and of the
  new tree or the error raised. A \<open>rotation_limit\<close> of zero is false in Python and turns the
  limit off. In the branch of a rotation beyond the limit, the source computes \<open>rot_factor\<close>
  and then reads \<open>new_rotation.basis\<close>: the dataclass has the fields \<open>base\<close> and
  \<open>rotation_angle\<close> only, so this read raises AttributeError, before the direction is
  changed, before the assignment to \<open>new_rotation.angle\<close> and before \<open>warnings.warn\<close>.
\<close>

definition add_node ::
  "VectorRotationTree \<Rightarrow> int \<Rightarrow> Vector \<Rightarrow> int \<Rightarrow> real \<Rightarrow> string list \<times> (error + VectorRotationTree)"
where
  "add_node t node_id direction0 parent_id rotation_limit =
     (case map_of (graph_nodes t) parent_id of
        None \<Rightarrow> ([], Inl KeyError)
      | Some parent \<Rightarrow>
          (case from_directions (direction parent) direction0 of
             Inl e \<Rightarrow> ([], Inl e)
           | Inr new_rotation \<Rightarrow>
               if rotation_limit \<noteq> 0 \<and> \<bar>rotation_angle new_rotation\<bar> > rotation_limit
               then
                 (let rot_factor = (2 * pi - \<bar>rotation_angle new_rotation\<bar>) / rotation_limit
                  in ([], Inl (AttributeError ''basis'')))
               else
                 ([], Inr \<lparr>graph_nodes =
                            put_node node_id
                              \<lparr>level = level parent + 1, direction = direction0, weight = 0,
                               orientation = new_rotation\<rparr>
                              (graph_nodes t),
                          graph_edges = put_edge (parent_id, node_id) (graph_edges t)\<rparr>)))"

definition reset_node_weights :: "VectorRotationTree \<Rightarrow> VectorRotationTree" where
  "reset_node_weights t =
     t\<lparr>graph_nodes := map (\<lambda>(node_id, nd). (node_id, nd\<lparr>weight := 0\<rparr>)) (graph_nodes t)\<rparr>"

text \<open>
  \<open>get_sorted_nodes\<close>: the node identifiers by ascending level. \<open>np.argsort\<close> is taken as a
  stable sort; nodes of one level have no edge between them in a tree built by \<open>add_node\<close>.
\<close>

definition get_sorted_nodes :: "VectorRotationTree \<Rightarrow> int list" where
  "get_sorted_nodes t = map fst (sort_key (\<lambda>(node_id, nd). level nd) (graph_nodes t))"

text \<open>\<open>self._graph.nodes[node]["weight"] = w\<close>; an unknown node raises KeyError.\<close>

definition set_weight :: "VectorRotationTree \<Rightarrow> int \<Rightarrow> real \<Rightarrow> error + VectorRotationTree" where
  "set_weight t node_id w =
     (case map_of (graph_nodes t) node_id of
        None \<Rightarrow> Inl KeyError
      | Some nd \<Rightarrow> Inr (t\<lparr>graph_nodes := put_node node_id (nd\<lparr>weight := w\<rparr>) (graph_nodes t)\<rparr>))"

text \<open>The loop \<open>for ii, node in enumerate(node_list)\<close> of \<open>get_weighted_mean\<close>.\<close>

fun assign_weights ::
  "VectorRotationTree \<Rightarrow> nat \<Rightarrow> int list \<Rightarrow> real list \<Rightarrow> error + VectorRotationTree"
where
  "assign_weights t ii [] weights = Inr t"
| "assign_weights t ii (node_id # node_list) weights =
     ebind (item weights ii) (\<lambda>w.
     ebind (set_weight t node_id w) (\<lambda>t'.
       assign_weights t' (ii + 1) node_list weights))"

text \<open>
  The loops under the comment "Update cumulated weights": for every node of the sorted list
  and every successor of it, \<open>nodes[succ_id]["weight"] += nodes[node_id]["weight"]\<close>.
\<close>

fun add_to_successors :: "VectorRotationTree \<Rightarrow> int \<Rightarrow> int list \<Rightarrow> error + VectorRotationTree" where
  "add_to_successors t node_id [] = Inr t"
| "add_to_successors t node_id (succ_id # succs) =
     (case (map_of (graph_nodes t) succ_id, map_of (graph_nodes t) node_id) of
        (Some succ_node, Some nd) \<Rightarrow>
          ebind (set_weight t succ_id (weight succ_node + weight nd)) (\<lambda>t'.
            add_to_successors t' node_id succs)
      | _ \<Rightarrow> Inl KeyError)"

fun update_cumulated_weights :: "VectorRotationTree \<Rightarrow> int list \<Rightarrow> error + VectorRotationTree" where
  "update_cumulated_weights t [] = Inr t"
| "update_cumulated_weights t (node_id # sorted_list) =
     ebind (add_to_successors t node_id (successors t node_id)) (\<lambda>t'.
       update_cumulated_weights t' sorted_list)"

text \<open>
  The first part of \<open>get_weighted_mean\<close>: the weights are reset, the input weights are
  assigned, and the weights are cumulated along the sorted list. The tree returned is the
  state in which the method goes on to build the partial orientations.
\<close>

definition get_weighted_mean_weights ::
  "VectorRotationTree \<Rightarrow> int list \<Rightarrow> real list \<Rightarrow> error + VectorRotationTree"
where
  "get_weighted_mean_weights t node_list weights =
     ebind (assign_weights (reset_node_weights t) 0 node_list weights) (\<lambda>t'.
       update_cumulated_weights t' (get_sorted_nodes t'))"

definition node_weights :: "VectorRotationTree \<Rightarrow> (int \<times> real) list" where
  "node_weights t = map (\<lambda>(node_id, nd). (node_id, weight nd)) (graph_nodes t)"

text \<open>
  The tree of the test \<open>test_rotation_tree\<close>: the root \<open>0\<close> with the direction \<open>[0, 1]\<close>, the
  nodes \<open>1\<close> and \<open>3\<close> under the root, the node \<open>2\<close> under \<open>1\<close> and the node \<open>4\<close> under \<open>3\<close>,
  each added with the default \<open>rotation_limit\<close> of \<open>0.75 pi\<close>.
\<close>

definition test_rotation_tree :: "error + VectorRotationTree" where
  "test_rotation_tree =
     ebind (snd (add_node (VectorRotationTree_init 0 [0, 1]) 1 [1, 0] 0 (3 * pi / 4))) (\<lambda>t.
     ebind (snd (add_node t 2 [1, 0] 1 (3 * pi / 4))) (\<lambda>t.
     ebind (snd (add_node t 3 [- 1, 0] 0 (3 * pi / 4))) (\<lambda>t.
       snd (add_node t 4 [- 1, 0] 3 (3 * pi / 4)))))"

section \<open>MultiBoundaryContainer\<close>

text \<open>
  Modelled from the spec: the obstacle class is not part of the sources. An obstacle is
  the capability interface the container consumes: the flag \<open>is_boundary\<close>, the
  \<open>center_position\<close>, the function \<open>get_gamma\<close> (in the global frame), the function
  \<open>get_intersection_with_surface\<close>, the \<open>global_reference_point\<close>, and the two values the
  container stores in it, which \<open>reset_relative_reference\<close> clears. The relative gamma that
  is stored is a float that may be an infinity or a NaN: it is a real, or \<open>None\<close> for a float
  that is not finite.
\<close>

record Obstacle =
  is_boundary :: bool
  center_position :: Vector
  get_gamma :: "Vector \<Rightarrow> real"
  get_intersection_with_surface :: "Vector \<Rightarrow> Vector"
  global_reference_point :: Vector
  global_relative_reference_point :: "Vector option"
  relative_gamma_at_position :: "(Vector \<times> real option) option"



text \<open>
  Modelled from the spec: the class \<open>BaseContainer\<close> is not part of the sources; it is the
  list of the obstacles, \<open>append\<close> adds one at the end, \<open>n_obstacles\<close> is its length and
  \<open>self[ii]\<close> reads it. \<open>MultiBoundaryContainer\<close> adds the array of parents, the list of the
  lists of children and the list of the intersection points with the parent.
\<close>

record MultiBoundaryContainer =
  obstacle_list :: "Obstacle list"
  parent_array :: "int list"
  children_list :: "int list list"
  parent_intersection_point :: "Vector option list"

definition MultiBoundaryContainer_init :: MultiBoundaryContainer where
  "MultiBoundaryContainer_init =
     \<lparr>obstacle_list = [], parent_array = [], children_list = [],
      parent_intersection_point = []\<rparr>"

definition n_obstacles :: "MultiBoundaryContainer \<Rightarrow> int" where
  "n_obstacles c = int (length (obstacle_list c))"

text \<open>
  An index of Python: a negative index counts from the end, and an index out of range
  raises IndexError.
\<close>

definition py_index :: "nat \<Rightarrow> int \<Rightarrow> error + nat" where
  "py_index n i =
     (let j = (if i < 0 then int n + i else i)
      in if 0 \<le> j \<and> j < int n then Inr (nat j) else Inl IndexError)"

definition set_parent :: "MultiBoundaryContainer \<Rightarrow> int \<Rightarrow> int \<Rightarrow> error + MultiBoundaryContainer" where
  "set_parent c it parent =
     ebind (py_index (length (parent_array c)) it) (\<lambda>k.
       Inr (c\<lparr>parent_array := (parent_array c)[k := parent]\<rparr>))"

definition add_children ::
  "MultiBoundaryContainer \<Rightarrow> int \<Rightarrow> int list \<Rightarrow> error + MultiBoundaryContainer"
where
  "add_children c it children =
     ebind (py_index (length (children_list c)) it) (\<lambda>k.
       Inr (c\<lparr>children_list := (children_list c)[k := children_list c ! k @ children]\<rparr>))"

definition extend_graph ::
  "MultiBoundaryContainer \<Rightarrow> int \<Rightarrow> int \<Rightarrow> error + MultiBoundaryContainer"
where
  "extend_graph c child parent =
     ebind (set_parent c child parent) (\<lambda>c'. add_children c' parent [child])"

text \<open>
  \<open>MultiBoundaryContainer.append\<close> (here \<open>append_obs\<close>, the name \<open>append\<close> being the one of
  the lists); the argument \<open>parent\<close> is \<open>None\<close> or an integer.
\<close>

definition append_obs ::
  "MultiBoundaryContainer \<Rightarrow> Obstacle \<Rightarrow> int option \<Rightarrow> error + MultiBoundaryContainer"
where
  "append_obs c v parent =
     (let c' = c\<lparr>obstacle_list := obstacle_list c @ [v],
                 parent_array := parent_array c @ [- 1],
                 children_list := children_list c @ [[]],
                 parent_intersection_point := parent_intersection_point c @ [None]\<rparr>
      in case parent of
           None \<Rightarrow> Inr c'
         | Some p \<Rightarrow>
             if p = - 1 then extend_graph c' (n_obstacles c' - 1) (n_obstacles c' - 2)
             else Inr c')"

text \<open>
  \<open>check_collision\<close>: the loop over the obstacles, with the list \<open>gamma_list_boundary\<close> built
  so far, and the final \<open>all(gamma_list_boundary <= 1)\<close>.
\<close>

fun check_collision_loop :: "Obstacle list \<Rightarrow> Vector \<Rightarrow> real list \<Rightarrow> bool" where
  "check_collision_loop [] position gamma_list_boundary =
     list_all (\<lambda>g. g \<le> 1) gamma_list_boundary"
| "check_collision_loop (ob # obs) position gamma_list_boundary =
     (let gamma = get_gamma ob position
      in if is_boundary ob then check_collision_loop obs position (gamma_list_boundary @ [gamma])
         else if gamma < 1 then True
         else check_collision_loop obs position gamma_list_boundary)"

definition check_collision :: "MultiBoundaryContainer \<Rightarrow> Vector \<Rightarrow> bool" where
  "check_collision c position = check_collision_loop (obstacle_list c) position []"














section \<open>Example obstacles\<close>

text \<open>
  The shapes of the obstacles are outside the sources. The examples use balls, with the
  gamma of the glossary: a wall has the gamma \<open>radius / distance\<close> (above one inside the
  room), an obstacle the gamma \<open>distance / radius\<close> (below one inside the obstacle), and the
  surface is met at the distance \<open>radius\<close> from the centre.
\<close>

definition ball_wall :: "Vector \<Rightarrow> real \<Rightarrow> Obstacle" where
  "ball_wall c radius =
     \<lparr>is_boundary = True, center_position = c,
      get_gamma = (\<lambda>position. radius / vnorm (vsub position c)),
      get_intersection_with_surface = (\<lambda>d. vadd c (smul (radius / vnorm d) d)),
      global_reference_point = c,
      global_relative_reference_point = None, relative_gamma_at_position = None\<rparr>"

definition ball_obstacle :: "Vector \<Rightarrow> real \<Rightarrow> Obstacle" where
  "ball_obstacle c radius =
     \<lparr>is_boundary = False, center_position = c,
      get_gamma = (\<lambda>position. vnorm (vsub position c) / radius),
      get_intersection_with_surface = (\<lambda>d. vadd c (smul (radius / vnorm d) d)),
      global_reference_point = c,
      global_relative_reference_point = None, relative_gamma_at_position = None\<rparr>"


section \<open>Lemmas on vectors\<close>

lemma length_vadd [simp]: "length (vadd a b) = min (length a) (length b)"
  by (simp add: vadd_def)
lemma length_vsub [simp]: "length (vsub a b) = min (length a) (length b)"
  by (simp add: vsub_def)
lemma length_smul [simp]: "length (smul k a) = length a"
  by (simp add: smul_def)
lemma length_vdiv [simp]: "length (vdiv a k) = length a"
  by (simp add: vdiv_def)

lemma nth_vadd [simp]: "i < length a \<Longrightarrow> i < length b \<Longrightarrow> vadd a b ! i = a ! i + b ! i"
  by (simp add: vadd_def)
lemma nth_vsub [simp]: "i < length a \<Longrightarrow> i < length b \<Longrightarrow> vsub a b ! i = a ! i - b ! i"
  by (simp add: vsub_def)
lemma nth_smul [simp]: "i < length a \<Longrightarrow> smul k a ! i = k * a ! i"
  by (simp add: smul_def)
lemma nth_vdiv [simp]: "i < length a \<Longrightarrow> vdiv a k ! i = a ! i / k"
  by (simp add: vdiv_def)

lemma dot_commute: "dot a b = dot b a"
proof -
  have "map2 (*) a b = map2 (*) b a"
    by (induction a arbitrary: b) (auto simp: zip_Cons1 split: list.splits)
  then show ?thesis by (simp add: dot_def)
qed

lemma dot_smul_left: "dot (smul k a) c = k * dot a c"
  unfolding dot_def smul_def
  by (induction a arbitrary: c) (auto simp: zip_Cons1 algebra_simps split: list.splits)

lemma dot_vadd_left: "length a = length b \<Longrightarrow> dot (vadd a b) c = dot a c + dot b c"
  unfolding dot_def vadd_def
  by (induction a b arbitrary: c rule: list_induct2) (auto simp: zip_Cons1 algebra_simps split: list.splits)

lemma dot_vsub_left: "length a = length b \<Longrightarrow> dot (vsub a b) c = dot a c - dot b c"
  unfolding dot_def vsub_def
  by (induction a b arbitrary: c rule: list_induct2) (auto simp: zip_Cons1 algebra_simps split: list.splits)

lemma dot_self_nonneg: "0 \<le> dot a a"
  unfolding dot_def by (induction a) auto

lemma vnorm_dot: "vnorm a = sqrt (dot a a)"
proof -
  have "map (\<lambda>x. x\<^sup>2) a = map2 (*) a a"
    by (induction a) (auto simp: power2_eq_square)
  then show ?thesis by (simp add: vnorm_def dot_def)
qed

section \<open>Lemmas on the rotation in a plane\<close>

lemma sqrt_sum_squares_factor:
  assumes "x \<noteq> (0::real)"
  shows "sqrt (x\<^sup>2 + y\<^sup>2) = \<bar>x\<bar> * sqrt (1 + (y / x)\<^sup>2)"
proof -
  have "x\<^sup>2 + y\<^sup>2 = x\<^sup>2 * (1 + (y / x)\<^sup>2)"
    using assms by (simp add: field_simps power2_eq_square)
  then have "sqrt (x\<^sup>2 + y\<^sup>2) = sqrt (x\<^sup>2) * sqrt (1 + (y / x)\<^sup>2)"
    by (simp add: real_sqrt_mult)
  then show ?thesis by simp
qed

lemma sqrt_one_plus_pos: "0 < sqrt (1 + (t::real)\<^sup>2)"
  by (simp add: add_pos_nonneg)

lemma atan2_cos: "sqrt (x\<^sup>2 + y\<^sup>2) * cos (atan2 y x) = x"
proof -
  consider "0 < x" | "x < 0" | "x = 0"
    by linarith
  then show ?thesis
  proof cases
    case 1
    then have "sqrt (x\<^sup>2 + y\<^sup>2) = x * sqrt (1 + (y / x)\<^sup>2)"
      using sqrt_sum_squares_factor [of x y] by simp
    moreover have "sqrt (1 + (y / x)\<^sup>2) \<noteq> 0"
      using sqrt_one_plus_pos [of "y / x"] by linarith
    ultimately show ?thesis
      using 1 by (simp add: atan2_def cos_arctan)
  next
    case 2
    then have "sqrt (x\<^sup>2 + y\<^sup>2) = - x * sqrt (1 + (y / x)\<^sup>2)"
      using sqrt_sum_squares_factor [of x y] by simp
    moreover have "sqrt (1 + (y / x)\<^sup>2) \<noteq> 0"
      using sqrt_one_plus_pos [of "y / x"] by linarith
    ultimately show ?thesis
      using 2 by (simp add: atan2_def cos_arctan cos_add cos_diff)
  next
    case 3
    then show ?thesis by (simp add: atan2_def)
  qed
qed

lemma atan2_sin: "sqrt (x\<^sup>2 + y\<^sup>2) * sin (atan2 y x) = y"
proof -
  consider "0 < x" | "x < 0" | "x = 0"
    by linarith
  then show ?thesis
  proof cases
    case 1
    then have "sqrt (x\<^sup>2 + y\<^sup>2) = x * sqrt (1 + (y / x)\<^sup>2)"
      using sqrt_sum_squares_factor [of x y] by simp
    moreover have "sqrt (1 + (y / x)\<^sup>2) \<noteq> 0"
      using sqrt_one_plus_pos [of "y / x"] by linarith
    ultimately show ?thesis
      using 1 by (simp add: atan2_def sin_arctan)
  next
    case 2
    then have "sqrt (x\<^sup>2 + y\<^sup>2) = - x * sqrt (1 + (y / x)\<^sup>2)"
      using sqrt_sum_squares_factor [of x y] by simp
    moreover have "sqrt (1 + (y / x)\<^sup>2) \<noteq> 0"
      using sqrt_one_plus_pos [of "y / x"] by linarith
    ultimately show ?thesis
      using 2 by (simp add: atan2_def sin_arctan sin_add sin_diff)
  next
    case 3
    then show ?thesis by (simp add: atan2_def)
  qed
qed

lemma polar_cos_add:
  "sqrt (x\<^sup>2 + y\<^sup>2) * cos (atan2 y x + t) = x * cos t - y * sin t"
proof -
  have "sqrt (x\<^sup>2 + y\<^sup>2) * cos (atan2 y x + t) =
        (sqrt (x\<^sup>2 + y\<^sup>2) * cos (atan2 y x)) * cos t - (sqrt (x\<^sup>2 + y\<^sup>2) * sin (atan2 y x)) * sin t"
    by (simp add: cos_add algebra_simps)
  then show ?thesis by (simp only: atan2_cos atan2_sin)
qed

lemma polar_sin_add:
  "sqrt (x\<^sup>2 + y\<^sup>2) * sin (atan2 y x + t) = y * cos t + x * sin t"
proof -
  have "sqrt (x\<^sup>2 + y\<^sup>2) * sin (atan2 y x + t) =
        (sqrt (x\<^sup>2 + y\<^sup>2) * sin (atan2 y x)) * cos t + (sqrt (x\<^sup>2 + y\<^sup>2) * cos (atan2 y x)) * sin t"
    by (simp add: sin_add algebra_simps)
  then show ?thesis by (simp only: atan2_cos atan2_sin)
qed


lemma vdiv_one [simp]: "vdiv a 1 = a"
  by (simp add: vdiv_def)

lemma dot_vadd_right: "length a = length b \<Longrightarrow> dot c (vadd a b) = dot c a + dot c b"
  using dot_vadd_left [of a b c] by (simp add: dot_commute)

lemma dot_vsub_right: "length a = length b \<Longrightarrow> dot c (vsub a b) = dot c a - dot c b"
  using dot_vsub_left [of a b c] by (simp add: dot_commute)

lemma dot_smul_right: "dot c (smul k a) = k * dot c a"
  using dot_smul_left [of k a c] by (simp add: dot_commute)

lemma rotate_direction_length:
  "length b0 = length d \<Longrightarrow> length b1 = length d \<Longrightarrow>
   length (rotate_direction d (b0, b1) t) = length d"
  by (simp add: rotate_direction_def Let_def)

lemma rotate_direction_nth:
  assumes "length b0 = length d" "length b1 = length d" "i < length d"
  shows "rotate_direction d (b0, b1) t ! i =
           (dot b0 (vdiv d (vnorm d)) * cos t - dot b1 (vdiv d (vnorm d)) * sin t) * b0 ! i
         + (dot b1 (vdiv d (vnorm d)) * cos t + dot b0 (vdiv d (vnorm d)) * sin t) * b1 ! i
         + (vdiv d (vnorm d) ! i
            - (dot b0 (vdiv d (vnorm d)) * b0 ! i + dot b1 (vdiv d (vnorm d)) * b1 ! i))"
proof -
  define x where "x = dot b0 (vdiv d (vnorm d))"
  define y where "y = dot b1 (vdiv d (vnorm d))"
  define r where "r = sqrt (x\<^sup>2 + y\<^sup>2)"
  have "rotate_direction d (b0, b1) t ! i =
          r * (cos (atan2 y x + t) * b0 ! i + sin (atan2 y x + t) * b1 ! i)
          + (vdiv d (vnorm d) ! i - (x * b0 ! i + y * b1 ! i))"
    using assms by (simp add: rotate_direction_def Let_def x_def y_def r_def)
  also have "r * (cos (atan2 y x + t) * b0 ! i + sin (atan2 y x + t) * b1 ! i) =
          (r * cos (atan2 y x + t)) * b0 ! i + (r * sin (atan2 y x + t)) * b1 ! i"
    by (simp add: algebra_simps)
  also have "r * cos (atan2 y x + t) = x * cos t - y * sin t"
    unfolding r_def by (rule polar_cos_add)
  also have "r * sin (atan2 y x + t) = y * cos t + x * sin t"
    unfolding r_def by (rule polar_sin_add)
  finally show ?thesis
    by (simp add: x_def y_def)
qed

lemma plane_norm_identity:
  "(x * c - y * s)\<^sup>2 + (y * c + x * s)\<^sup>2 = (x\<^sup>2 + y\<^sup>2) * (s\<^sup>2 + c\<^sup>2)" for x :: real
  by (simp add: power2_eq_square algebra_simps)

lemma plane_back_identity:
  "(x * c - y * s) * c + (y * c + x * s) * s = x * (s\<^sup>2 + c\<^sup>2)"
  "(y * c + x * s) * c - (x * c - y * s) * s = y * (s\<^sup>2 + c\<^sup>2)" for x :: real
  by (simp_all add: power2_eq_square algebra_simps)

lemma rotation_keeps_plane_norm:
  "(x * cos t - y * sin t)\<^sup>2 + (y * cos t + x * sin t)\<^sup>2 = x\<^sup>2 + (y::real)\<^sup>2"
  using plane_norm_identity [of x "cos t" y "sin t"] by simp

lemma rotate_direction_roundtrip:
  assumes len: "length b0 = length d" "length b1 = length d"
    and b00: "dot b0 b0 = 1" and b11: "dot b1 b1 = 1" and b01: "dot b0 b1 = 0"
    and dd: "dot d d = 1"
  shows "rotate_direction (rotate_direction d (b0, b1) t) (b0, b1) (- t) = d"
proof -
  define x where "x = dot b0 d"
  define y where "y = dot b1 d"
  define x' where "x' = x * cos t - y * sin t"
  define y' where "y' = y * cos t + x * sin t"
  define w where "w = vsub d (vadd (smul x b0) (smul y b1))"
  define v where "v = rotate_direction d (b0, b1) t"
  have nd: "vnorm d = 1" by (simp add: vnorm_dot dd)
  have b10: "dot b1 b0 = 0" using b01 by (simp add: dot_commute)
  have lw: "length w = length d" using len by (simp add: w_def)
  have lv: "length v = length d" unfolding v_def using len by (rule rotate_direction_length)
  have v_eq: "v = vadd (smul x' b0) (vadd (smul y' b1) w)"
  proof (rule nth_equalityI)
    show "length v = length (vadd (smul x' b0) (vadd (smul y' b1) w))"
      using len lv lw by simp
  next
    fix i assume "i < length v"
    then have i: "i < length d" using lv by simp
    show "v ! i = vadd (smul x' b0) (vadd (smul y' b1) w) ! i"
      using i len lw rotate_direction_nth [OF len i, of t]
      by (simp add: v_def nd w_def x_def y_def x'_def y'_def algebra_simps)
  qed
  have b0w: "dot b0 w = 0"
    using len by (simp add: w_def dot_vsub_right dot_vadd_right dot_smul_right b00 b01 x_def)
  have b1w: "dot b1 w = 0"
    using len by (simp add: w_def dot_vsub_right dot_vadd_right dot_smul_right b11 b10 y_def)
  have db0: "dot d b0 = x" by (simp add: x_def dot_commute)
  have db1: "dot d b1 = y" by (simp add: y_def dot_commute)
  have dw: "dot d w = 1 - x\<^sup>2 - y\<^sup>2"
    using len
    by (simp add: w_def dot_vsub_right dot_vadd_right dot_smul_right dd db0 db1
        power2_eq_square)
  have ww: "dot w w = 1 - x\<^sup>2 - y\<^sup>2"
  proof -
    have "dot w w = dot d w - (x * dot b0 w + y * dot b1 w)"
      using len by (subst w_def) (simp add: dot_vsub_left dot_vadd_left dot_smul_left)
    then show ?thesis by (simp add: b0w b1w dw)
  qed
  have b0v: "dot b0 v = x'"
    using len lw by (simp add: v_eq dot_vadd_right dot_smul_right b00 b01 b0w)
  have b1v: "dot b1 v = y'"
    using len lw by (simp add: v_eq dot_vadd_right dot_smul_right b11 b10 b1w)
  have wb0: "dot w b0 = 0" using b0w by (simp add: dot_commute)
  have wb1: "dot w b1 = 0" using b1w by (simp add: dot_commute)
  have wv: "dot w v = 1 - x\<^sup>2 - y\<^sup>2"
    using len lw
    by (simp add: v_eq dot_vadd_right dot_smul_right ww wb0 wb1)
  have vv: "dot v v = 1"
  proof -
    have "dot v v = x' * dot b0 v + (y' * dot b1 v + dot w v)"
      using len lw by (subst v_eq) (simp add: dot_vadd_left dot_smul_left)
    also have "\<dots> = (x'\<^sup>2 + y'\<^sup>2) + (1 - x\<^sup>2 - y\<^sup>2)"
      by (simp add: b0v b1v wv power2_eq_square)
    also have "x'\<^sup>2 + y'\<^sup>2 = x\<^sup>2 + y\<^sup>2"
      unfolding x'_def y'_def by (rule rotation_keeps_plane_norm)
    finally show ?thesis by simp
  qed
  have nv: "vnorm v = 1" by (simp add: vnorm_dot vv)
  have back_x: "x' * cos t + y' * sin t = x"
    unfolding x'_def y'_def using plane_back_identity(1) [of x "cos t" y "sin t"] by simp
  have back_y: "y' * cos t - x' * sin t = y"
    unfolding x'_def y'_def using plane_back_identity(2) [of y "cos t" x "sin t"] by simp
  have "rotate_direction v (b0, b1) (- t) = d"
  proof (rule nth_equalityI)
    show "length (rotate_direction v (b0, b1) (- t)) = length d"
      using len lv by (simp add: rotate_direction_length)
  next
    fix i assume "i < length (rotate_direction v (b0, b1) (- t))"
    then have i: "i < length d" using len lv by (simp add: rotate_direction_length)
    have lb: "length b0 = length v" "length b1 = length v" using len lv by simp_all
    have iv: "i < length v" using i lv by simp
    have "rotate_direction v (b0, b1) (- t) ! i =
            (x' * cos t + y' * sin t) * b0 ! i + (y' * cos t - x' * sin t) * b1 ! i
            + (v ! i - (x' * b0 ! i + y' * b1 ! i))"
      using rotate_direction_nth [OF lb iv, of "- t"] by (simp add: nv b0v b1v)
    also have "v ! i = x' * b0 ! i + (y' * b1 ! i + (d ! i - (x * b0 ! i + y * b1 ! i)))"
      using i len lw by (simp add: v_eq w_def)
    finally show "rotate_direction v (b0, b1) (- t) ! i = d ! i"
      by (simp add: back_x back_y algebra_simps)
  qed
  then show ?thesis by (simp add: v_def)
qed


lemma vdiv_smul: "vdiv a k = smul (1 / k) a"
  by (simp add: vdiv_def smul_def)

lemma rotate_direction_zero:
  assumes len: "length b0 = length d" "length b1 = length d" and nd: "vnorm d = 1"
  shows "rotate_direction d (b0, b1) 0 = d"
proof (rule nth_equalityI)
  show "length (rotate_direction d (b0, b1) 0) = length d"
    using len by (rule rotate_direction_length)
next
  fix i assume "i < length (rotate_direction d (b0, b1) 0)"
  then have i: "i < length d" using len by (simp add: rotate_direction_length)
  show "rotate_direction d (b0, b1) 0 ! i = d ! i"
    using rotate_direction_nth [OF len i, of 0] by (simp add: nd)
qed

lemma unit_dot_le_one:
  assumes "length a = length b" "dot a a = 1" "dot b b = 1"
  shows "dot a b \<le> 1"
proof -
  have "0 \<le> dot (vsub a b) (vsub a b)" by (rule dot_self_nonneg)
  also have "dot (vsub a b) (vsub a b) = 2 - 2 * dot a b"
    using assms by (simp add: dot_vsub_left dot_vsub_right dot_commute [of b a])
  finally show ?thesis by simp
qed

lemma unit_dot_ge_minus_one:
  assumes "length a = length b" "dot a a = 1" "dot b b = 1"
  shows "- 1 \<le> dot a b"
proof -
  have "0 \<le> dot (vadd a b) (vadd a b)" by (rule dot_self_nonneg)
  also have "dot (vadd a b) (vadd a b) = 2 + 2 * dot a b"
    using assms by (simp add: dot_vadd_left dot_vadd_right dot_commute [of b a])
  finally show ?thesis by simp
qed

lemma vnorm_one_iff: "vnorm a = 1 \<longleftrightarrow> dot a a = 1"
  by (simp add: vnorm_dot)

lemma from_directions_unit_base:
  assumes len: "length a = length b" and aa: "dot a a = 1" and bb: "dot b b = 1"
    and lt: "dot a b < 1" and gt: "- 1 < dot a b"
    and r: "from_directions a b = Inr r"
  shows "fst (base r) = a \<and> length (snd (base r)) = length a \<and>
         dot (snd (base r)) (snd (base r)) = 1 \<and> dot a (snd (base r)) = 0"
proof -
  define c where "c = dot a b"
  define p where "p = vsub b (smul c a)"
  have ba: "dot b a = c" by (simp add: c_def dot_commute)
  have ap: "dot a p = 0"
    using len by (simp add: p_def dot_vsub_right dot_smul_right aa c_def)
  have pp: "dot p p = 1 - c\<^sup>2"
    using len
    by (simp add: p_def dot_vsub_right dot_vsub_left dot_smul_right dot_smul_left aa bb ba
        power2_eq_square algebra_simps) (simp add: c_def)
  have "c\<^sup>2 < 1"
    using lt gt unfolding c_def by (simp add: abs_square_less_1)
  then have pos: "0 < dot p p" using pp by simp
  then have np: "0 < vnorm p" by (simp add: vnorm_dot)
  have np2: "vnorm p * vnorm p = dot p p"
    using pos by (simp add: vnorm_dot)
  have rb: "base r = (a, vdiv p (vnorm p))"
    using r len lt gt by (auto simp: from_directions_def Let_def p_def c_def)
  have "dot (vdiv p (vnorm p)) (vdiv p (vnorm p)) = dot p p / (vnorm p * vnorm p)"
    by (simp add: vdiv_smul dot_smul_left dot_smul_right)
  then have u: "dot (vdiv p (vnorm p)) (vdiv p (vnorm p)) = 1"
    using pos by (simp add: np2)
  have o: "dot a (vdiv p (vnorm p)) = 0"
    by (simp add: vdiv_smul dot_smul_right ap)
  have l: "length (vdiv p (vnorm p)) = length a"
    using len by (simp add: p_def)
  show ?thesis using rb u o l by simp
qed

lemma roundtrip_from_directions:
  assumes lx: "length v_init = length x" "length v_rot = length x"
    and unit: "vnorm v_init = 1" "vnorm v_rot = 1" "vnorm x = 1"
    and r: "from_directions v_init v_rot = Inr r"
  shows "inverse_rotate r (rotate_xd r x 1) = x"
proof -
  have len: "length v_init = length v_rot" using lx by simp
  have aa: "dot v_init v_init = 1" and bb: "dot v_rot v_rot = 1" and xx: "dot x x = 1"
    using unit by (simp_all add: vnorm_one_iff)
  have le: "dot v_init v_rot \<le> 1" using len aa bb by (rule unit_dot_le_one)
  have ge: "- 1 \<le> dot v_init v_rot" using len aa bb by (rule unit_dot_ge_minus_one)
  have ne: "dot v_init v_rot \<noteq> - 1"
    using r len by (auto simp: from_directions_def Let_def split: if_splits)
  show ?thesis
  proof (cases "dot v_init v_rot < 1")
    case True
    have gt: "- 1 < dot v_init v_rot" using ge ne by linarith
    obtain b1 where b: "base r = (v_init, b1)" and lb: "length b1 = length v_init"
      and u: "dot b1 b1 = 1" and o: "dot v_init b1 = 0"
      using from_directions_unit_base [OF len aa bb True gt r] by (cases "base r") auto
    have "rotate_direction (rotate_direction x (v_init, b1) (rotation_angle r)) (v_init, b1)
            (- rotation_angle r) = x"
      using lx lb aa u o xx by (intro rotate_direction_roundtrip) simp_all
    then show ?thesis by (simp add: inverse_rotate_def rotate_xd_def b)
  next
    case False
    then have "dot v_init v_rot = 1" using le by linarith
    then have b: "base r = (v_init, v_rot)" and a: "rotation_angle r = 0"
      using r len by (auto simp: from_directions_def Let_def)
    show ?thesis
      using lx unit by (simp add: inverse_rotate_def rotate_xd_def b a rotate_direction_zero)
  qed
qed


lemma rotate_direction_closed:
  assumes len: "length b0 = length d" "length b1 = length d"
  shows "rotate_direction d (b0, b1) t =
           vadd (smul (dot b0 (vdiv d (vnorm d)) * cos t - dot b1 (vdiv d (vnorm d)) * sin t) b0)
             (vadd (smul (dot b1 (vdiv d (vnorm d)) * cos t + dot b0 (vdiv d (vnorm d)) * sin t) b1)
                (vsub (vdiv d (vnorm d))
                   (vadd (smul (dot b0 (vdiv d (vnorm d))) b0)
                         (smul (dot b1 (vdiv d (vnorm d))) b1))))"
proof (rule nth_equalityI)
  show "length (rotate_direction d (b0, b1) t) = length
           (vadd (smul (dot b0 (vdiv d (vnorm d)) * cos t - dot b1 (vdiv d (vnorm d)) * sin t) b0)
             (vadd (smul (dot b1 (vdiv d (vnorm d)) * cos t + dot b0 (vdiv d (vnorm d)) * sin t) b1)
                (vsub (vdiv d (vnorm d))
                   (vadd (smul (dot b0 (vdiv d (vnorm d))) b0)
                         (smul (dot b1 (vdiv d (vnorm d))) b1)))))"
    using len by (simp add: rotate_direction_length)
next
  fix i assume "i < length (rotate_direction d (b0, b1) t)"
  then have i: "i < length d" using len by (simp add: rotate_direction_length)
  show "rotate_direction d (b0, b1) t ! i =
           vadd (smul (dot b0 (vdiv d (vnorm d)) * cos t - dot b1 (vdiv d (vnorm d)) * sin t) b0)
             (vadd (smul (dot b1 (vdiv d (vnorm d)) * cos t + dot b0 (vdiv d (vnorm d)) * sin t) b1)
                (vsub (vdiv d (vnorm d))
                   (vadd (smul (dot b0 (vdiv d (vnorm d))) b0)
                         (smul (dot b1 (vdiv d (vnorm d))) b1)))) ! i"
    using i len rotate_direction_nth [OF len i, of t] by (simp add: algebra_simps)
qed

lemma rotate_array_map:
  "rotate_array ds bs t = map (\<lambda>d. rotate_direction d bs t) ds"
  by (simp add: rotate_array_def rotate_direction_def)

section \<open>Antiparallel inputs\<close>

text \<open>
  Claim C6. On two directions of the same dimension, \<open>from_directions\<close> raises exactly when
  their dot product is \<open>-1\<close>, the error is the ValueError "Antiparallel vectors", and it
  returns a rotation whenever the dot product is greater than \<open>-1\<close>.
\<close>

theorem from_directions_raises_iff:
  "length a = length b \<Longrightarrow>
     ((\<exists>e. from_directions a b = Inl e) \<longleftrightarrow> dot a b = - 1) \<and>
     (dot a b = - 1 \<longrightarrow> from_directions a b = Inl (ValueError ''Antiparallel vectors'')) \<and>
     (- 1 < dot a b \<longrightarrow> (\<exists>r. from_directions a b = Inr r))"
  by (auto simp: from_directions_def Let_def)

theorem from_directions_raises_iff_witness:
  "length [1, 0 :: real] = length [- 1, 0 :: real] \<and>
   dot [1, 0] [- 1, 0] = - 1 \<and>
   from_directions [1, 0] [- 1, 0] = Inl (ValueError ''Antiparallel vectors'') \<and>
   - 1 < dot [1, 0] [0, 1] \<and>
   (\<exists>r. from_directions [1, 0] [0, 1] = Inr r)"
  using from_directions_raises_iff [of "[1, 0]" "[- 1, 0]"]
        from_directions_raises_iff [of "[1, 0]" "[0, 1]"]
  by (simp add: dot_def)

section \<open>Round trip\<close>

text \<open>
  Claim C5. For a rotation \<open>r\<close> that \<open>from_directions\<close> returns on two unit directions (it
  returns one exactly when they are not antiparallel) and a unit vector \<open>x\<close> of the same
  dimension, \<open>inverse_rotate\<close> undoes \<open>rotate\<close>, and \<open>inverse_rotate\<close> is \<open>rotate\<close> with the
  rotation factor \<open>-1\<close> on every direction.
\<close>

theorem inverse_rotate_rotate:
  assumes "length v_init = length x" "length v_rot = length x"
    and "vnorm v_init = 1" "vnorm v_rot = 1" "vnorm x = 1"
    and "from_directions v_init v_rot = Inr r"
  shows "inverse_rotate r (rotate_xd r x 1) = x \<and> inverse_rotate r d = rotate_xd r d (- 1)"
  using roundtrip_from_directions [OF assms] by (simp add: inverse_rotate_def rotate_xd_def)

theorem inverse_rotate_rotate_witness:
  "length [1, 0 :: real] = length [0, 1 :: real] \<and>
   vnorm [1, 0] = 1 \<and> vnorm [0, 1] = 1 \<and>
   from_directions [1, 0] [0, 1] = Inr \<lparr>base = ([1, 0], [0, 1]), rotation_angle = pi / 2\<rparr> \<and>
   inverse_rotate \<lparr>base = ([1, 0], [0, 1]), rotation_angle = pi / 2\<rparr>
     (rotate_xd \<lparr>base = ([1, 0], [0, 1]), rotation_angle = pi / 2\<rparr> [0, 1] 1) = [0, 1]"
proof -
  have n: "vnorm [1, 0] = 1" "vnorm [0, 1] = 1"
    by (simp_all add: vnorm_def)
  have f: "from_directions [1, 0] [0, 1] = Inr \<lparr>base = ([1, 0], [0, 1]), rotation_angle = pi / 2\<rparr>"
    by (simp add: from_directions_def dot_def vsub_def smul_def vdiv_def vnorm_def)
  have l: "length [1, 0 :: real] = length [0, 1 :: real]"
    by simp
  have "inverse_rotate \<lparr>base = ([1, 0], [0, 1]), rotation_angle = pi / 2\<rparr>
          (rotate_xd \<lparr>base = ([1, 0], [0, 1]), rotation_angle = pi / 2\<rparr> [0, 1] 1) = [0, 1] \<and>
        inverse_rotate \<lparr>base = ([1, 0], [0, 1]), rotation_angle = pi / 2\<rparr> [0, 1] =
          rotate_xd \<lparr>base = ([1, 0], [0, 1]), rotation_angle = pi / 2\<rparr> [0, 1] (- 1)"
    by (rule inverse_rotate_rotate [of "[1, 0]" "[0, 1]" "[0, 1]"]) (simp_all add: n f)
  with l n f show ?thesis
    by blast
qed

section \<open>The sequence of five directions\<close>

lemma vnorm3: "vnorm [a, b, c] = sqrt (a\<^sup>2 + b\<^sup>2 + c\<^sup>2)"
  by (simp add: vnorm_def)

lemma rotate_direction3:
  assumes "a\<^sup>2 + b\<^sup>2 + c\<^sup>2 = 1"
  shows "rotate_direction [a, b, c] ([p, q, r], [u, v, w]) t =
     (let x = p * a + (q * b + r * c); y = u * a + (v * b + w * c);
          x' = x * cos t - y * sin t; y' = y * cos t + x * sin t
      in [x' * p + (y' * u + (a - (x * p + y * u))),
          x' * q + (y' * v + (b - (x * q + y * v))),
          x' * r + (y' * w + (c - (x * r + y * w)))])"
  using assms
  by (simp add: rotate_direction_closed vnorm3 dot_def vadd_def vsub_def smul_def Let_def)

lemma upt_small: "[0..<4] = [0, 1, 2, 3]" "[0..<3] = [0, 1, 2]"
  by (simp_all add: upt_rec)

lemma sequence_of_five:
  "VectorRotationSequence_init [[1, 0, 0], [0, 1, 0], [0, 0, 1], [- 1, 0, 0], [0, - 1, 0]] =
     Inr \<lparr>vectors_array = [[1, 0, 0], [0, 1, 0], [0, 0, 1], [- 1, 0, 0], [0, - 1, 0]],
          basis_array = [([1, 0, 0], [0, 1, 0]), ([0, 1, 0], [0, 0, 1]),
                         ([0, 0, 1], [- 1, 0, 0]), ([- 1, 0, 0], [0, - 1, 0])],
          rotation_angles = [pi / 2, pi / 2, pi / 2, pi / 2]\<rparr>"
  by (simp add: VectorRotationSequence_init_def Let_def vdiv_def dot_def vsub_def smul_def vnorm3)

lemma sequence_of_five_rotate:
  "rotate_sequence
     \<lparr>vectors_array = vs,
      basis_array = [([1, 0, 0], [0, 1, 0]), ([0, 1, 0], [0, 0, 1]),
                     ([0, 0, 1], [- 1, 0, 0]), ([- 1, 0, 0], [0, - 1, 0])],
      rotation_angles = [pi / 2, pi / 2, pi / 2, pi / 2]\<rparr> [1, 0, 0] 1 =
   ([], Inr [0, - 1, 0])"
  by (simp add: rotate_sequence_def rotate_weighted_def n_rotations_def cumsum_def
      item_def isclose_def np_mul_def ebind_def upt_small rotate_array_map rotate_direction3
      Let_def)

lemma sequence_of_five_rotate_weighted:
  "rotate_weighted
     \<lparr>vectors_array = vs,
      basis_array = [([1, 0, 0], [0, 1, 0]), ([0, 1, 0], [0, 0, 1]),
                     ([0, 0, 1], [- 1, 0, 0]), ([- 1, 0, 0], [0, - 1, 0])],
      rotation_angles = [pi / 2, pi / 2, pi / 2, pi / 2]\<rparr> [1, 0, 0] [1 / 2, 1 / 2, 0, 0] =
   ([], Inr [0, sqrt 2 / 2, sqrt 2 / 2])"
  by (simp add: rotate_weighted_def n_rotations_def cumsum_def
      item_def isclose_def np_mul_def ebind_def upt_small rotate_array_map rotate_direction3
      Let_def cos_45 sin_45 power_divide)

lemma vdiv_sqrt2: "vdiv [0, 1, 1] (sqrt 2) = [0, sqrt 2 / 2, sqrt 2 / 2]"
proof -
  have "1 / sqrt 2 = sqrt 2 / 2"
    by (simp add: real_div_sqrt)
  then show ?thesis by (simp add: vdiv_def)
qed

text \<open>
  Claim C2. The sequence built from the five unit directions turns \<open>[1, 0, 0]\<close> into
  \<open>[0, -1, 0]\<close> with \<open>rotate\<close>, and into \<open>[0, 1, 1] / sqrt 2\<close> with \<open>rotate_weighted\<close> and the
  weights \<open>[0.5, 0.5, 0, 0]\<close>; neither call emits a warning. The arithmetic is the exact one
  of the reals.
\<close>

theorem rotation_sequence_of_five:
  "\<exists>s. VectorRotationSequence_init
          [[1, 0, 0], [0, 1, 0], [0, 0, 1], [- 1, 0, 0], [0, - 1, 0]] = Inr s \<and>
       rotate_sequence s [1, 0, 0] 1 = ([], Inr [0, - 1, 0]) \<and>
       rotate_weighted s [1, 0, 0] [1 / 2, 1 / 2, 0, 0] = ([], Inr (vdiv [0, 1, 1] (sqrt 2)))"
  unfolding vdiv_sqrt2
  using sequence_of_five sequence_of_five_rotate sequence_of_five_rotate_weighted by blast

section \<open>Collisions\<close>

lemma check_collision_loop_iff:
  "check_collision_loop obs position gl \<longleftrightarrow>
     (\<exists>ob\<in>set obs. \<not> is_boundary ob \<and> get_gamma ob position < 1) \<or>
     ((\<forall>g\<in>set gl. g \<le> 1) \<and> (\<forall>ob\<in>set obs. is_boundary ob \<longrightarrow> get_gamma ob position \<le> 1))"
proof (induction obs arbitrary: gl)
  case Nil
  then show ?case by (simp add: list_all_iff)
next
  case (Cons ob obs)
  show ?case
  proof (cases "is_boundary ob")
    case True
    then show ?thesis using Cons.IH [of "gl @ [get_gamma ob position]"] by (auto simp: Let_def)
  next
    case False
    then show ?thesis using Cons.IH [of gl] by (auto simp: Let_def)
  qed
qed

lemma vnorm1: "vnorm [a] = \<bar>a\<bar>"
  by (simp add: vnorm_def)

text \<open>
  Claim C4. \<open>check_collision\<close> returns \<open>True\<close> exactly when some obstacle that is not a
  boundary has a gamma below one at the position, or every boundary has a gamma of at most
  one there. In particular a position with a gamma above one for some boundary and a gamma
  of at least one for every other obstacle is reported free.
\<close>

theorem check_collision_iff:
  "(check_collision c position \<longleftrightarrow>
      (\<exists>ob\<in>set (obstacle_list c). \<not> is_boundary ob \<and> get_gamma ob position < 1) \<or>
      (\<forall>ob\<in>set (obstacle_list c). is_boundary ob \<longrightarrow> get_gamma ob position \<le> 1)) \<and>
   ((\<exists>ob\<in>set (obstacle_list c). is_boundary ob \<and> get_gamma ob position > 1) \<and>
    (\<forall>ob\<in>set (obstacle_list c). \<not> is_boundary ob \<longrightarrow> get_gamma ob position \<ge> 1)
      \<longrightarrow> \<not> check_collision c position)"
  unfolding check_collision_def check_collision_loop_iff by fastforce

theorem check_collision_iff_witness:
  "\<not> check_collision
       \<lparr>obstacle_list = [ball_wall [0] 2, ball_obstacle [5] 1], parent_array = [- 1, - 1],
        children_list = [[], []], parent_intersection_point = [None, None]\<rparr> [1] \<and>
   get_gamma (ball_wall [0] 2) [1] > 1 \<and> get_gamma (ball_obstacle [5] 1) [1] \<ge> 1 \<and>
   check_collision
       \<lparr>obstacle_list = [ball_wall [0] 2, ball_obstacle [5] 1], parent_array = [- 1, - 1],
        children_list = [[], []], parent_intersection_point = [None, None]\<rparr> [9 / 2]"
  using check_collision_iff
          [of "\<lparr>obstacle_list = [ball_wall [0] 2, ball_obstacle [5] 1], parent_array = [- 1, - 1],
                children_list = [[], []], parent_intersection_point = [None, None]\<rparr>" "[1]"]
        check_collision_iff
          [of "\<lparr>obstacle_list = [ball_wall [0] 2, ball_obstacle [5] 1], parent_array = [- 1, - 1],
                children_list = [[], []], parent_intersection_point = [None, None]\<rparr>" "[9 / 2]"]
  by (simp add: ball_wall_def ball_obstacle_def vnorm1 vsub_def)

text \<open>
  Claim C10. In a container without any boundary, every position that is inside none of the
  obstacles (gamma at least one for all of them) is reported as a collision, the final
  conjunction being over an empty list; so the empty container reports a collision at
  every position.
\<close>

theorem check_collision_without_boundary:
  "((\<forall>ob\<in>set (obstacle_list c). \<not> is_boundary ob \<and> get_gamma ob position \<ge> 1)
      \<longrightarrow> check_collision c position) \<and>
   check_collision MultiBoundaryContainer_init position"
  unfolding check_collision_def check_collision_loop_iff
  by (auto simp: MultiBoundaryContainer_init_def)

theorem check_collision_without_boundary_witness:
  "\<not> is_boundary (ball_obstacle [5] 1) \<and> get_gamma (ball_obstacle [5] 1) [1] \<ge> 1 \<and>
   check_collision
     \<lparr>obstacle_list = [ball_obstacle [5] 1], parent_array = [- 1],
      children_list = [[]], parent_intersection_point = [None]\<rparr> [1] \<and>
   check_collision MultiBoundaryContainer_init [1]"
  using check_collision_without_boundary
          [of "\<lparr>obstacle_list = [ball_obstacle [5] 1], parent_array = [- 1],
                children_list = [[]], parent_intersection_point = [None]\<rparr>" "[1]"]
  by (simp add: ball_obstacle_def vnorm1 vsub_def)

section \<open>Appending to the container\<close>

text \<open>
  Claim C9. On a container that holds at least one obstacle (and whose array of parents
  and list of children have one entry per obstacle, as the constructor and \<open>append\<close> keep
  them), \<open>append\<close> with \<open>parent = -1\<close> makes the obstacle before the new one its parent: the
  new entry of the array of parents is the index of the previous obstacle, and the index of
  the new obstacle joins the children of the previous one. With \<open>parent = None\<close> the new
  obstacle is a root, with the parent \<open>-1\<close> and no link to a child.
\<close>

theorem append_links_previous:
  assumes "length (parent_array c) = length (obstacle_list c)"
    and "length (children_list c) = length (obstacle_list c)"
    and "obstacle_list c \<noteq> []"
  shows "append_obs c v (Some (- 1)) =
           Inr (c\<lparr>obstacle_list := obstacle_list c @ [v],
                  parent_array := parent_array c @ [int (length (obstacle_list c)) - 1],
                  children_list :=
                    (children_list c)
                      [length (obstacle_list c) - 1 :=
                         children_list c ! (length (obstacle_list c) - 1)
                           @ [int (length (obstacle_list c))]] @ [[]],
                  parent_intersection_point := parent_intersection_point c @ [None]\<rparr>) \<and>
         append_obs c v None =
           Inr (c\<lparr>obstacle_list := obstacle_list c @ [v],
                  parent_array := parent_array c @ [- 1],
                  children_list := children_list c @ [[]],
                  parent_intersection_point := parent_intersection_point c @ [None]\<rparr>)"
proof -
  define n where "n = length (obstacle_list c)"
  have n: "0 < n" using assms(3) by (simp add: n_def)
  have lp: "length (parent_array c) = n" and lc: "length (children_list c) = n"
    using assms by (simp_all add: n_def)
  have i1: "py_index (Suc n) (int n) = Inr n"
    by (simp add: py_index_def)
  have i2: "py_index (Suc n) (int n - 1) = Inr (n - 1)"
    using n by (auto simp: py_index_def Let_def nat_diff_distrib')
  have u: "(children_list c @ [[]])[n - 1 := (children_list c @ [[]]) ! (n - 1) @ [int n]]
           = (children_list c)[n - 1 := children_list c ! (n - 1) @ [int n]] @ [[]]"
    using n lc by (simp add: list_update_append nth_append)
  have p: "(parent_array c @ [- 1])[n := int n - 1] = parent_array c @ [int n - 1]"
    using lp by (metis list_update_length)
  show ?thesis
    using n lp lc i1 i2 u p
    by (simp add: append_obs_def extend_graph_def set_parent_def add_children_def ebind_def
        n_obstacles_def Let_def n_def [symmetric])
qed

theorem append_links_previous_witness:
  "append_obs
     \<lparr>obstacle_list = [ball_wall [0] 2], parent_array = [- 1],
      children_list = [[]], parent_intersection_point = [None]\<rparr>
     (ball_wall [3] 2) (Some (- 1)) =
   Inr \<lparr>obstacle_list = [ball_wall [0] 2, ball_wall [3] 2], parent_array = [- 1, 0],
        children_list = [[1], []], parent_intersection_point = [None, None]\<rparr> \<and>
   append_obs
     \<lparr>obstacle_list = [ball_wall [0] 2], parent_array = [- 1],
      children_list = [[]], parent_intersection_point = [None]\<rparr>
     (ball_wall [3] 2) None =
   Inr \<lparr>obstacle_list = [ball_wall [0] 2, ball_wall [3] 2], parent_array = [- 1, - 1],
        children_list = [[], []], parent_intersection_point = [None, None]\<rparr>"
  using append_links_previous
          [of "\<lparr>obstacle_list = [ball_wall [0] 2], parent_array = [- 1],
                children_list = [[]], parent_intersection_point = [None]\<rparr>" "ball_wall [3] 2"]
  by simp

section \<open>The base of a rotation\<close>

lemma vnorm2: "vnorm [a, b] = sqrt (a\<^sup>2 + b\<^sup>2)"
  by (simp add: vnorm_def)

text \<open>
  Claim C7 says that the base stored by \<open>from_directions\<close> is orthonormal also for inputs
  that are not of unit length. The code does not normalise its inputs: on \<open>[1/2, 0]\<close> and
  \<open>[1, 1]\<close> the first column of the base is the input \<open>[1/2, 0]\<close>, of norm \<open>1/2\<close>, and the
  two columns have the dot product \<open>3/10\<close>.
\<close>

theorem from_directions_keeps_length:
  "from_directions [1 / 2, 0] [1, 1] =
     Inr \<lparr>base = ([1 / 2, 0], [3 / 5, 4 / 5]), rotation_angle = arccos (1 / 2)\<rparr> \<and>
   vnorm [1 / 2, 0] = 1 / 2 \<and> dot [1 / 2, 0] [3 / 5, 4 / 5] = 3 / 10"
proof -
  have n: "vnorm [3 / 4, 1] = 5 / 4"
    unfolding vnorm2 by (rule real_sqrt_unique) (simp_all add: power2_eq_square)
  have h: "vnorm [1 / 2, 0] = 1 / 2"
    by (simp add: vnorm2)
  show ?thesis
    by (simp add: from_directions_def dot_def vsub_def smul_def vdiv_def Let_def n h)
qed

section \<open>The rotation limit of the tree\<close>

lemma add_node_limit_branch:
  assumes "map_of (graph_nodes t) parent_id = Some parent"
    and "from_directions (direction parent) d = Inr r"
    and "rotation_limit \<noteq> 0" and "\<bar>rotation_angle r\<bar> > rotation_limit"
  shows "add_node t node_id d parent_id rotation_limit = ([], Inl (AttributeError ''basis''))"
  using assms by (simp add: add_node_def Let_def)

lemma arccos_beyond_limit: "3 * pi / 4 < arccos (- (4 / 5))"
proof -
  have q: "0 \<le> pi / 4" "pi / 4 \<le> pi" by simp_all
  have "arccos (cos (pi / 4)) = pi / 4"
    by (rule arccos_cos [OF q])
  then have c: "arccos (sqrt 2 / 2) = pi / 4"
    by (simp only: cos_45)
  have "sqrt 2 \<le> 2" by (rule real_le_lsqrt) simp_all
  then have le: "sqrt 2 / 2 \<le> 1" by simp
  have "0 \<le> sqrt 2" by simp
  then have ge: "- 1 \<le> sqrt 2 / 2" by linarith
  have "arccos (- (sqrt 2 / 2)) = pi - arccos (sqrt 2 / 2)"
    by (rule arccos_minus [OF ge le])
  then have a: "arccos (- (sqrt 2 / 2)) = 3 * pi / 4"
    by (simp add: c)
  have "sqrt 2 < 8 / 5"
    by (rule real_less_lsqrt) (simp_all add: power2_eq_square)
  then have lt: "- (4 / 5) < - (sqrt 2 / 2)" by simp
  have b1: "\<bar>- (sqrt 2 / 2)\<bar> \<le> 1" using le ge by linarith
  have b2: "\<bar>- (4 / 5 :: real)\<bar> \<le> 1" by simp
  have "arccos (- (sqrt 2 / 2)) < arccos (- (4 / 5))"
    using arccos_less_mono [OF b1 b2] lt by blast
  then show ?thesis by (simp only: a)
qed

text \<open>
  Claim C3 says that a node added beyond the rotation limit is stored with a clipped angle
  and that a warning is emitted. On the tree with the root direction \<open>[1, 0]\<close>, the direction
  \<open>[-4/5, 3/5]\<close> is at the angle \<open>arccos (-4/5)\<close>, beyond the default limit of \<open>0.75 pi\<close>:
  \<open>add_node\<close> raises AttributeError, stores no node and emits no warning.
\<close>

theorem add_node_beyond_limit_raises:
  "add_node (VectorRotationTree_init 0 [1, 0]) 1 [- (4 / 5), 3 / 5] 0 (3 * pi / 4) =
     ([], Inl (AttributeError ''basis''))"
proof -
  have n: "vnorm [0, 3 / 5] = 3 / 5"
    unfolding vnorm2 by (rule real_sqrt_unique) (simp_all add: power2_eq_square)
  have f: "from_directions [1, 0] [- (4 / 5), 3 / 5] =
             Inr \<lparr>base = ([1, 0], [0, 1]), rotation_angle = arccos (- (4 / 5))\<rparr>"
    by (simp add: from_directions_def dot_def vsub_def smul_def vdiv_def Let_def n)
  have pos: "0 < arccos (- (4 / 5))"
    using arccos_beyond_limit pi_gt_zero by linarith
  show ?thesis
    by (rule add_node_limit_branch [where parent = "snd (hd (graph_nodes (VectorRotationTree_init 0 [1, 0])))"
          and r = "\<lparr>base = ([1, 0], [0, 1]), rotation_angle = arccos (- (4 / 5))\<rparr>"])
       (use f pos arccos_beyond_limit in \<open>simp_all add: VectorRotationTree_init_def\<close>)
qed

section \<open>The cumulated weights of the tree\<close>

lemma from_directions_quarter_turn:
  "from_directions [0, 1] [1, 0] = Inr \<lparr>base = ([0, 1], [1, 0]), rotation_angle = pi / 2\<rparr>"
  "from_directions [0, 1] [- 1, 0] = Inr \<lparr>base = ([0, 1], [- 1, 0]), rotation_angle = pi / 2\<rparr>"
  "from_directions [1, 0] [1, 0] = Inr \<lparr>base = ([1, 0], [1, 0]), rotation_angle = 0\<rparr>"
  "from_directions [- 1, 0] [- 1, 0] = Inr \<lparr>base = ([- 1, 0], [- 1, 0]), rotation_angle = 0\<rparr>"
  by (simp_all add: from_directions_def dot_def vsub_def smul_def vdiv_def vnorm2 Let_def)

lemma test_rotation_tree_value:
  "test_rotation_tree =
     Inr \<lparr>graph_nodes =
       [(0, \<lparr>level = 0, direction = [0, 1], weight = 0,
             orientation = \<lparr>base = ([0, 1], [0, 1]), rotation_angle = 0\<rparr>\<rparr>),
        (1, \<lparr>level = 1, direction = [1, 0], weight = 0,
             orientation = \<lparr>base = ([0, 1], [1, 0]), rotation_angle = pi / 2\<rparr>\<rparr>),
        (2, \<lparr>level = 2, direction = [1, 0], weight = 0,
             orientation = \<lparr>base = ([1, 0], [1, 0]), rotation_angle = 0\<rparr>\<rparr>),
        (3, \<lparr>level = 1, direction = [- 1, 0], weight = 0,
             orientation = \<lparr>base = ([0, 1], [- 1, 0]), rotation_angle = pi / 2\<rparr>\<rparr>),
        (4, \<lparr>level = 2, direction = [- 1, 0], weight = 0,
             orientation = \<lparr>base = ([- 1, 0], [- 1, 0]), rotation_angle = 0\<rparr>\<rparr>)],
       graph_edges = [(0, 1), (1, 2), (0, 3), (3, 4)]\<rparr>"
  by (simp add: test_rotation_tree_def add_node_def VectorRotationTree_init_def
      from_directions_quarter_turn put_edge_def ebind_def)

text \<open>
  Claim C1 says that after the pass over the sorted nodes the weight of a node is its input
  weight plus the input weights of its descendants. On the tree and the weights of the test
  \<open>test_rotation_tree\<close> (\<open>0.3\<close> on each of the nodes \<open>0\<close>, \<open>2\<close> and \<open>4\<close>) the code leaves \<open>0.3\<close> on
  the root, whose descendants carry \<open>0.6\<close>, and \<open>0.6\<close> on the leaves \<open>2\<close> and \<open>4\<close>: the weight of
  a node is added to its successors, so every node ends with its input weight plus those of
  its ancestors.
\<close>

theorem weights_cumulate_downwards:
  "\<exists>t t'. test_rotation_tree = Inr t \<and>
     get_weighted_mean_weights t [0, 2, 4] [3 / 10, 3 / 10, 3 / 10] = Inr t' \<and>
     node_weights t' = [(0, 3 / 10), (1, 3 / 10), (2, 3 / 5), (3, 3 / 10), (4, 3 / 5)]"
  unfolding test_rotation_tree_value
  by (simp add: get_weighted_mean_weights_def reset_node_weights_def set_weight_def item_def
      ebind_def get_sorted_nodes_def successors_def node_weights_def)

section \<open>The weight of the relative reference point\<close>


















end
